theory Spec2Isabelle
  imports Complex_Main "HOL-Library.Multiset"
begin

section \<open>JavaScript values\<close>

text \<open>
  The values that flow through \<^verbatim>\<open>netlify/functions/index.js\<close>: request bodies, the
  fields destructured from them and the objects handed to \<^verbatim>\<open>res.json\<close>.
  \<^item> A number is a finite double, kept as the rational it denotes (\<open>0\<close> and \<open>-0\<close> are
    both \<open>0\<close>).
  \<^item> A string is a \<open>string\<close>; characters outside Latin-1 are not represented.
  \<^item> A plain object is the list of its properties; a property read takes the first
    binding of the key.
  \<^item> A \<^verbatim>\<open>Buffer\<close> is represented by the text that \<^verbatim>\<open>toString('utf8')\<close> yields
    for it, so the empty byte sequence is \<open>JBuffer []\<close>.
  \<^item> A \<^verbatim>\<open>Date\<close> is its number of milliseconds.
\<close>

datatype js =
    JUndefined
  | JNull
  | JBool bool
  | JNum rat
  | JStr string
  | JArr "js list"
  | JObj "(string \<times> js) list"
  | JBuffer string
  | JDate int

text \<open>Truthiness, as \<^verbatim>\<open>!x\<close> and \<^verbatim>\<open>if (x)\<close> read it.\<close>

fun truthy :: "js \<Rightarrow> bool" where
  "truthy JUndefined = False"
| "truthy JNull = False"
| "truthy (JBool b) = b"
| "truthy (JNum n) = (n \<noteq> 0)"
| "truthy (JStr s) = (s \<noteq> [])"
| "truthy (JArr xs) = True"
| "truthy (JObj ps) = True"
| "truthy (JBuffer bs) = True"
| "truthy (JDate d) = True"

fun typeof :: "js \<Rightarrow> string" where
  "typeof JUndefined = ''undefined''"
| "typeof JNull = ''object''"
| "typeof (JBool b) = ''boolean''"
| "typeof (JNum n) = ''number''"
| "typeof (JStr s) = ''string''"
| "typeof (JArr xs) = ''object''"
| "typeof (JObj ps) = ''object''"
| "typeof (JBuffer bs) = ''object''"
| "typeof (JDate d) = ''object''"

fun isBuffer :: "js \<Rightarrow> bool" where
  "isBuffer (JBuffer bs) = True"
| "isBuffer v = False"

text \<open>\<^verbatim>\<open>req.body.toString('utf8')\<close> on a Buffer.\<close>

fun toString_utf8 :: "js \<Rightarrow> string" where
  "toString_utf8 (JBuffer bs) = bs"
| "toString_utf8 v = []"

text \<open>
  \<^verbatim>\<open>String.prototype.trim\<close>: white space and line terminators are removed at both
  ends. Of the characters it removes, these are the ones a \<open>string\<close> can hold: tab,
  line feed, vertical tab, form feed, carriage return, space and the no-break space
  U+00A0.
\<close>

definition js_space :: "char \<Rightarrow> bool" where
  "js_space c =
     (c \<in> set [CHR 0x09, CHR 0x0A, CHR 0x0B, CHR 0x0C, CHR 0x0D, CHR '' '', CHR 0xA0])"

definition trim :: "string \<Rightarrow> string" where
  "trim s = rev (dropWhile js_space (rev (dropWhile js_space s)))"

text \<open>
  A property read \<^verbatim>\<open>v.k\<close> for the keys the handler destructures (\<^verbatim>\<open>name\<close>,
  \<^verbatim>\<open>email\<close>, \<^verbatim>\<open>phone\<close>): a plain object yields the property or
  \<^verbatim>\<open>undefined\<close>; strings, numbers, booleans, arrays, Buffers and Dates have no
  property of these names. Reading a property of \<^verbatim>\<open>undefined\<close> or \<^verbatim>\<open>null\<close>
  throws; \<open>destructure\<close> has that case.
\<close>

fun prop_of :: "js \<Rightarrow> string \<Rightarrow> js" where
  "prop_of (JObj ps) k = (case map_of ps k of Some v \<Rightarrow> v | None \<Rightarrow> JUndefined)"
| "prop_of v k = JUndefined"

text \<open>\<^verbatim>\<open>const { name, email, phone } = req.body\<close>; \<open>None\<close> is the TypeError.\<close>

definition destructure :: "js \<Rightarrow> (js \<times> js \<times> js) option" where
  "destructure body =
     (if body = JUndefined \<or> body = JNull then None
      else Some (prop_of body ''name'', prop_of body ''email'', prop_of body ''phone''))"

section \<open>Library functions the source calls\<close>

text \<open>
  An error thrown into Express: its \<^verbatim>\<open>status\<close> and \<^verbatim>\<open>message\<close> where it has
  them, and the error itself as \<^verbatim>\<open>res.send\<close> would serialise it.
\<close>

datatype thrown =
  Thrown (err_status: "nat option") (err_message: "string option") (err_self: js)

text \<open>
  The source calls \<^verbatim>\<open>JSON.parse\<close>, declares the Sequelize validators
  \<^verbatim>\<open>isEmail\<close> and \<^verbatim>\<open>notEmpty\<close> on \<^verbatim>\<open>STRING\<close> attributes, and mounts the
  parsers of Express behind its own body middleware. Their code is not part of the
  repository, so they are parameters of the model:
  \<^item> \<open>JSON_parse\<close>: the parsed value, \<open>None\<close> when \<^verbatim>\<open>JSON.parse\<close> throws;
  \<^item> \<open>isEmail\<close>, \<open>notEmpty\<close>: the validators, on the text of an attribute;
  \<^item> \<open>STRING_errors\<close>: what the \<^verbatim>\<open>STRING\<close> type makes of a value that is not a
    string: \<open>None\<close> when it takes the value, otherwise the messages its rejection adds
    to the validation error;
  \<^item> \<open>String_of\<close>: the text \<^verbatim>\<open>String(v)\<close> of such a value, which the validators see
    and which is stored when the type takes the value;
  \<^item> \<open>express_parsers\<close>: \<^verbatim>\<open>express.json\<close> followed by \<^verbatim>\<open>express.urlencoded\<close>,
    given the \<^verbatim>\<open>Content-Type\<close> of the request, the body as the host delivered it
    and \<^verbatim>\<open>req.body\<close> as the body middleware left it: the \<^verbatim>\<open>req.body\<close> they
    hand on, or the error they throw.
\<close>

record lib =
  JSON_parse :: "string \<Rightarrow> js option"
  isEmail :: "string \<Rightarrow> bool"
  notEmpty :: "string \<Rightarrow> bool"
  STRING_errors :: "js \<Rightarrow> string list option"
  String_of :: "js \<Rightarrow> string"
  express_parsers :: "string \<Rightarrow> js \<Rightarrow> js \<Rightarrow> thrown + js"

section \<open>Responses and errors\<close>

record response =
  status :: nat
  json :: js

text \<open>A thrown error: its \<^verbatim>\<open>name\<close> and the messages of its \<^verbatim>\<open>errors\<close>.\<close>

datatype js_error = Error (error_name: string) (error_messages: "string list")

text \<open>The accented letter of the Spanish messages, U+00E1.\<close>

definition a_acute :: char where
  "a_acute = CHR 0xE1"

section \<open>The User model and its table\<close>

text \<open>
  \<^verbatim>\<open>DATA_BASE.define('User', ...)\<close> with \<^verbatim>\<open>timestamps: true\<close>: the six columns
  of the table \<^verbatim>\<open>users\<close>.
\<close>

record user_row =
  id' :: int
  name :: string
  email :: string
  phone :: string
  createdAt :: int
  updatedAt :: int

text \<open>
  The table in insertion order, and the last value drawn from the sequence behind the
  \<^verbatim>\<open>autoIncrement\<close> key.
\<close>

record store =
  rows :: "user_row list"
  seq :: int

text \<open>
  What a request did to the store: calls of the model's methods, and statements sent to
  the database.
\<close>

datatype db_event = CreateCalled | InsertSent | FindAllCalled | SelectSent

text \<open>
  The instance that \<^verbatim>\<open>User.create\<close> returns, as \<^verbatim>\<open>res.json\<close> serialises it:
  the key, the three attributes, then \<^verbatim>\<open>updatedAt\<close> and \<^verbatim>\<open>createdAt\<close> in the
  order in which the instance was given them.
\<close>

definition toJSON :: "user_row \<Rightarrow> (string \<times> js) list" where
  "toJSON r =
     [(''id'', JNum (of_int (id' r))), (''name'', JStr (name r)), (''email'', JStr (email r)),
      (''phone'', JStr (phone r)), (''updatedAt'', JDate (updatedAt r)),
      (''createdAt'', JDate (createdAt r))]"

text \<open>Sequelize's message for a failed built-in validator.\<close>

definition validator_message :: "string \<Rightarrow> string \<Rightarrow> string" where
  "validator_message validator field =
     ''Validation '' @ validator @ '' on '' @ field @ '' failed''"

text \<open>
  The declared validators, in the order of the attributes and of their \<^verbatim>\<open>validate\<close>
  entries: \<^verbatim>\<open>name: notEmpty\<close>, \<^verbatim>\<open>email: isEmail, notEmpty\<close>,
  \<^verbatim>\<open>phone: notEmpty\<close>.
\<close>

definition validate_User :: "lib \<Rightarrow> string \<Rightarrow> string \<Rightarrow> string \<Rightarrow> string list" where
  "validate_User L n e p =
     (if notEmpty L n then [] else [validator_message ''notEmpty'' ''name'']) @
     (if isEmail L e then [] else [validator_message ''isEmail'' ''email'']) @
     (if notEmpty L e then [] else [validator_message ''notEmpty'' ''email'']) @
     (if notEmpty L p then [] else [validator_message ''notEmpty'' ''phone''])"

text \<open>
  An attribute value under the \<^verbatim>\<open>STRING\<close> type: its text (a string is itself),
  whether the type rejects it, and the messages of the rejection (a string is never
  rejected).
\<close>

definition attr_text :: "lib \<Rightarrow> js \<Rightarrow> string" where
  "attr_text L v = (case v of JStr t \<Rightarrow> t | _ \<Rightarrow> String_of L v)"

definition type_rejects :: "lib \<Rightarrow> js \<Rightarrow> bool" where
  "type_rejects L v = (case v of JStr t \<Rightarrow> False | _ \<Rightarrow> STRING_errors L v \<noteq> None)"

definition type_errors :: "lib \<Rightarrow> js \<Rightarrow> string list" where
  "type_errors L v =
     (case v of
        JStr t \<Rightarrow> []
      | _ \<Rightarrow> (case STRING_errors L v of None \<Rightarrow> [] | Some ms \<Rightarrow> ms))"

text \<open>
  The text that the postgres dialect stores for a submitted text: a NUL character, which
  a postgres text cannot hold, is written as a backslash and the digit 0.
\<close>

definition pg_text :: "string \<Rightarrow> string" where
  "pg_text t = concat (map (\<lambda>c. if c = CHR 0x00 then [CHR 0x5C, CHR ''0''] else [c]) t)"

text \<open>
  The unique index on \<^verbatim>\<open>email\<close>: the INSERT is refused when the text to be stored
  is the email of a row. A postgres table holds no NUL, so a submitted text that is
  itself in the table is its own stored form; the second disjunct is the first on every
  such table, and says the same of lists of rows that no database holds.
\<close>

definition email_taken :: "store \<Rightarrow> string \<Rightarrow> bool" where
  "email_taken s e =
     (pg_text e \<in> set (map email (rows s)) \<or> e \<in> set (map email (rows s)))"

text \<open>
  \<^verbatim>\<open>User.create({ name, email, phone })\<close> at time \<open>now\<close>.
  \<^item> The instance is validated first: the type's messages for the three attributes,
    then those of the declared validators, which see the text of each value. A
    failure throws \<^verbatim>\<open>SequelizeValidationError\<close> and nothing is sent to the database.
  \<^item> Then the INSERT is sent. \<open>db_ok\<close> says whether the database executes it; when it
    does not (connection lost, a text longer than the 255 characters of the column, the
    key beyond the range of \<^verbatim>\<open>INTEGER\<close>), the error has another name and the table
    is as before.
  \<^item> The database draws the key from the sequence, then checks the unique index on
    \<^verbatim>\<open>email\<close>: a duplicate throws \<^verbatim>\<open>SequelizeUniqueConstraintError\<close>, the row
    is not inserted, and the value drawn from the sequence is spent.
  \<^item> Otherwise the row is appended with the texts as stored and
    \<^verbatim>\<open>createdAt = updatedAt = now\<close>, and is what the call returns.
\<close>

definition User_create ::
  "lib \<Rightarrow> int \<Rightarrow> bool \<Rightarrow> js \<Rightarrow> js \<Rightarrow> js \<Rightarrow> store \<Rightarrow> (js_error + user_row) \<times> store \<times> db_event list" where
  "User_create L now db_ok name_v email_v phone_v s =
     (let n = attr_text L name_v; e = attr_text L email_v; p = attr_text L phone_v;
          errs = type_errors L name_v @ type_errors L email_v @ type_errors L phone_v @
                 validate_User L n e p
      in if errs \<noteq> [] \<or> type_rejects L name_v \<or> type_rejects L email_v \<or>
            type_rejects L phone_v then
           (Inl (Error ''SequelizeValidationError'' errs), s, [CreateCalled])
         else if \<not> db_ok then
           (Inl (Error ''SequelizeDatabaseError'' []), s, [CreateCalled, InsertSent])
         else if email_taken s e then
           (Inl (Error ''SequelizeUniqueConstraintError'' [''email must be unique'']),
            s\<lparr>seq := seq s + 1\<rparr>, [CreateCalled, InsertSent])
         else
           (let r = \<lparr>id' = seq s + 1, name = pg_text n, email = pg_text e, phone = pg_text p,
                     createdAt = now, updatedAt = now\<rparr>
            in (Inr r, s\<lparr>rows := rows s @ [r], seq := seq s + 1\<rparr>,
                [CreateCalled, InsertSent])))"

text \<open>
  \<^verbatim>\<open>User.findAll({ attributes, order: [['createdAt', 'DESC']] })\<close>: every row, the
  most recently created first, each reduced to the listed attributes. Rows with equal
  \<^verbatim>\<open>createdAt\<close> are kept in insertion order here; SQL leaves their order open, and
  the theorems below do not depend on it.
\<close>

definition order_createdAt_DESC :: "user_row list \<Rightarrow> user_row list" where
  "order_createdAt_DESC rs = sort_key (\<lambda>r. - createdAt r) rs"

definition select_attributes :: "string list \<Rightarrow> user_row \<Rightarrow> js" where
  "select_attributes attributes r = JObj (map (\<lambda>a. (a, prop_of (JObj (toJSON r)) a)) attributes)"

definition User_findAll ::
  "bool \<Rightarrow> string list \<Rightarrow> store \<Rightarrow> (js_error + js list) \<times> db_event list" where
  "User_findAll db_ok attributes s =
     (if \<not> db_ok then (Inl (Error ''SequelizeDatabaseError'' []), [FindAllCalled, SelectSent])
      else (Inr (map (select_attributes attributes) (order_createdAt_DESC (rows s))),
            [FindAllCalled, SelectSent]))"

section \<open>The body middleware\<close>

text \<open>
  \<^verbatim>\<open>app.use('/api', (req, res, next) => ...)\<close>: either \<^verbatim>\<open>next()\<close> is called with
  \<^verbatim>\<open>req.body\<close> as it then is, or the middleware answers itself.
\<close>

datatype mw_result = Next js | Responded response

definition methodsWithBody :: "string list" where
  "methodsWithBody = [''POST'', ''PUT'', ''PATCH'']"

definition malformed_body :: response where
  "malformed_body =
     \<lparr>status = 400,
      json = JObj [(''error'', JStr (''Formato de datos inv'' @ [a_acute] @ ''lido'')),
                   (''details'', JStr ''No se pudo parsear el JSON'')]\<rparr>"

definition body_middleware :: "lib \<Rightarrow> string \<Rightarrow> js \<Rightarrow> mw_result" where
  "body_middleware L meth body =
     (if meth \<in> set methodsWithBody \<and> isBuffer body then
        (let bodyString = toString_utf8 body in
           if trim bodyString \<noteq> [] then
             (case JSON_parse L bodyString of
                Some v \<Rightarrow> Next v
              | None \<Rightarrow> Responded malformed_body)
           else Next (JObj []))
      else if meth \<in> set methodsWithBody \<and> \<not> truthy body then Next (JObj [])
      else Next body)"

section \<open>The route handlers\<close>

text \<open>What a request leaves behind: the response sent, the store, and what was done to it.\<close>

record outcome =
  sent :: response
  after :: store
  trace :: "db_event list"

definition fields_required :: "js \<Rightarrow> js \<Rightarrow> js \<Rightarrow> js \<Rightarrow> response" where
  "fields_required body name_v email_v phone_v =
     \<lparr>status = 400,
      json = JObj [(''error'', JStr ''Todos los campos son requeridos: name, email, phone''),
                   (''received'', JObj [(''name'', name_v), (''email'', email_v),
                                        (''phone'', phone_v)]),
                   (''bodyType'', JStr (typeof body))]\<rparr>"

definition user_created :: "user_row \<Rightarrow> response" where
  "user_created newUser_v =
     \<lparr>status = 201,
      json = JObj [(''message'', JStr ''Usuario creado exitosamente''),
                   (''user'', JObj (toJSON newUser_v))]\<rparr>"

text \<open>The \<^verbatim>\<open>catch\<close> block of the create handler.\<close>

definition newUser_catch :: "js_error \<Rightarrow> response" where
  "newUser_catch err =
     (if error_name err = ''SequelizeUniqueConstraintError'' then
        \<lparr>status = 409,
         json = JObj [(''error'', JStr (''El email ya est'' @ [a_acute] @ '' registrado''))]\<rparr>
      else if error_name err = ''SequelizeValidationError'' then
        \<lparr>status = 400,
         json = JObj [(''error'', JStr (''Datos de entrada inv'' @ [a_acute] @ ''lidos'')),
                      (''details'', JArr (map JStr (error_messages err)))]\<rparr>
      else
        \<lparr>status = 500,
         json = JObj [(''error'', JStr ''Error interno del servidor al crear el usuario'')]\<rparr>)"

text \<open>
  \<^verbatim>\<open>router.post('/newUser', ...)\<close> on the body the middleware left, at time \<open>now\<close>,
  from store \<open>s\<close>.
\<close>

definition newUser :: "lib \<Rightarrow> int \<Rightarrow> bool \<Rightarrow> js \<Rightarrow> store \<Rightarrow> outcome" where
  "newUser L now db_ok body s =
     (case destructure body of
        None \<Rightarrow> \<lparr>sent = newUser_catch (Error ''TypeError'' []), after = s, trace = []\<rparr>
      | Some (name_v, email_v, phone_v) \<Rightarrow>
          if \<not> truthy name_v \<or> \<not> truthy email_v \<or> \<not> truthy phone_v then
            \<lparr>sent = fields_required body name_v email_v phone_v, after = s, trace = []\<rparr>
          else
            (case User_create L now db_ok name_v email_v phone_v s of
               (Inr newUser_v, s', evs) \<Rightarrow>
                 \<lparr>sent = user_created newUser_v, after = s', trace = evs\<rparr>
             | (Inl err, s', evs) \<Rightarrow>
                 \<lparr>sent = newUser_catch err, after = s', trace = evs\<rparr>))"

text \<open>\<^verbatim>\<open>router.get('/allUsers', ...)\<close>; \<^verbatim>\<open>res.json\<close> answers with status 200.\<close>

definition allUsers_attributes :: "string list" where
  "allUsers_attributes = [''id'', ''name'', ''email'', ''phone'', ''createdAt'', ''updatedAt'']"

definition allUsers :: "bool \<Rightarrow> store \<Rightarrow> outcome" where
  "allUsers db_ok s =
     (case User_findAll db_ok allUsers_attributes s of
        (Inr users, evs) \<Rightarrow>
          \<lparr>sent = \<lparr>status = 200,
                    json = JObj [(''message'', JStr ''Usuarios obtenidos exitosamente''),
                                 (''count'', JNum (of_nat (length users))),
                                 (''users'', JArr users)]\<rparr>,
           after = s, trace = evs\<rparr>
      | (Inl err, evs) \<Rightarrow>
          \<lparr>sent = \<lparr>status = 500,
                    json = JObj [(''error'',
                                  JStr ''Error interno del servidor al obtener los usuarios'')]\<rparr>,
           after = s, trace = evs\<rparr>)"

section \<open>A request through the application\<close>

text \<open>
  The error middleware, \<^verbatim>\<open>app.use((err, req, res, next) => ...)\<close>:
  \<^verbatim>\<open>err.status || 500\<close> and \<^verbatim>\<open>err.message || err\<close>.
\<close>

definition error_middleware :: "thrown \<Rightarrow> response" where
  "error_middleware err =
     (let status_v = (case err_status err of
                        Some n \<Rightarrow> if n \<noteq> 0 then n else 500
                      | None \<Rightarrow> 500);
          message = (case err_message err of
                       Some m \<Rightarrow> if m \<noteq> [] then JStr m else err_self err
                     | None \<Rightarrow> err_self err)
      in \<lparr>status = status_v, json = JObj [(''error'', message)]\<rparr>)"

text \<open>
  \<^verbatim>\<open>POST /api/newUser\<close> with the given \<^verbatim>\<open>Content-Type\<close>: the body middleware;
  unless it answered, the parsers of Express mounted behind it; unless they threw, the
  route handler on the body they hand on. An error of the parsers goes to the error
  middleware. \<^verbatim>\<open>cors\<close> only adds headers.
\<close>

definition POST_newUser :: "lib \<Rightarrow> string \<Rightarrow> int \<Rightarrow> bool \<Rightarrow> js \<Rightarrow> store \<Rightarrow> outcome" where
  "POST_newUser L ctype now db_ok body s =
     (case body_middleware L ''POST'' body of
        Responded r \<Rightarrow> \<lparr>sent = r, after = s, trace = []\<rparr>
      | Next body' \<Rightarrow>
          (case express_parsers L ctype body body' of
             Inl err \<Rightarrow> \<lparr>sent = error_middleware err, after = s, trace = []\<rparr>
           | Inr body'' \<Rightarrow> newUser L now db_ok body'' s))"

text \<open>The \<^verbatim>\<open>users\<close> of a response body.\<close>

definition users_of :: "js \<Rightarrow> js list" where
  "users_of b = (case prop_of b ''users'' of JArr us \<Rightarrow> us | _ \<Rightarrow> [])"

section \<open>Concrete inputs\<close>

text \<open>
  An instance of the library functions for the concrete runs below. It does what the
  libraries do on the inputs used there:
  \<^item> a parser that knows the texts \<^verbatim>\<open>{}\<close> and \<^verbatim>\<open>null\<close> and rejects the others
    used (blank text and \<^verbatim>\<open>{bad\<close>, on which \<^verbatim>\<open>JSON.parse\<close> throws);
  \<^item> an \<open>isEmail\<close> that asks for an \<^verbatim>\<open>@\<close>;
  \<^item> Sequelize's \<open>notEmpty\<close>: not only white space;
  \<^item> a \<^verbatim>\<open>STRING\<close> type that rejects every value that is not a string;
  \<^item> parsers that throw a parse error with status 400 for a body of type
    \<^verbatim>\<open>application/json\<close> that is white space only, as \<^verbatim>\<open>express.json\<close> does,
    and hand every other body on as the middleware left it.
\<close>

definition sample_parse_error :: thrown where
  "sample_parse_error = Thrown (Some 400) (Some ''Unexpected end of JSON input'') (JObj [])"

definition sample_lib :: lib where
  "sample_lib =
     \<lparr>JSON_parse = (\<lambda>t. if t = ''{}'' then Some (JObj [])
                         else if t = ''null'' then Some JNull else None),
      isEmail = (\<lambda>t. CHR ''@'' \<in> set t),
      notEmpty = (\<lambda>t. trim t \<noteq> []),
      STRING_errors = (\<lambda>v. Some []),
      String_of = (\<lambda>v. []),
      express_parsers = (\<lambda>ctype raw body.
         if ctype = ''application/json'' \<and> toString_utf8 raw \<noteq> [] \<and>
            trim (toString_utf8 raw) = []
         then Inl sample_parse_error else Inr body)\<rparr>"

definition ana_row :: user_row where
  "ana_row = \<lparr>id' = 1, name = ''Ana'', email = ''ana@x.com'', phone = ''123'',
              createdAt = 1000, updatedAt = 1000\<rparr>"

definition ana_store :: store where
  "ana_store = \<lparr>rows = [ana_row], seq = 1\<rparr>"

definition eva_row :: user_row where
  "eva_row = \<lparr>id' = 2, name = ''Eva'', email = ''eva@x.com'', phone = ''456'',
              createdAt = 2000, updatedAt = 2000\<rparr>"

definition two_store :: store where
  "two_store = \<lparr>rows = [ana_row, eva_row], seq = 2\<rparr>"

definition empty_store :: store where
  "empty_store = \<lparr>rows = [], seq = 0\<rparr>"

definition user_body :: "string \<Rightarrow> string \<Rightarrow> string \<Rightarrow> js" where
  "user_body n e p = JObj [(''name'', JStr n), (''email'', JStr e), (''phone'', JStr p)]"


definition blank_text :: string where
  "blank_text = [CHR '' '', CHR 0x0A, CHR 0xA0]"

section \<open>Auxiliary facts\<close>

lemma destructure_of_field:
  "prop_of body k = JStr x \<Longrightarrow>
   destructure body = Some (prop_of body ''name'', prop_of body ''email'', prop_of body ''phone'')"
  by (cases body) (auto simp: destructure_def)

lemma validate_User_passes:
  "notEmpty L n \<Longrightarrow> isEmail L e \<Longrightarrow> notEmpty L e \<Longrightarrow> notEmpty L p \<Longrightarrow> validate_User L n e p = []"
  by (simp add: validate_User_def)


lemma User_create_strings:
  "User_create L now db_ok (JStr n) (JStr e) (JStr p) s =
     (if validate_User L n e p \<noteq> [] then
        (Inl (Error ''SequelizeValidationError'' (validate_User L n e p)), s, [CreateCalled])
      else if \<not> db_ok then
        (Inl (Error ''SequelizeDatabaseError'' []), s, [CreateCalled, InsertSent])
      else if email_taken s e then
        (Inl (Error ''SequelizeUniqueConstraintError'' [''email must be unique'']),
         s\<lparr>seq := seq s + 1\<rparr>, [CreateCalled, InsertSent])
      else
        (Inr \<lparr>id' = seq s + 1, name = pg_text n, email = pg_text e, phone = pg_text p,
               createdAt = now, updatedAt = now\<rparr>,
         s\<lparr>rows := rows s @ [\<lparr>id' = seq s + 1, name = pg_text n, email = pg_text e,
                                phone = pg_text p, createdAt = now, updatedAt = now\<rparr>],
           seq := seq s + 1\<rparr>,
         [CreateCalled, InsertSent]))"
  by (simp add: User_create_def attr_text_def type_errors_def type_rejects_def Let_def)

text \<open>A duplicate email never adds a row, whatever the other two values are.\<close>

lemma User_create_duplicate_rows:
  assumes "e \<in> set (map email (rows s))"
  shows "rows (fst (snd (User_create L now db_ok name_v (JStr e) phone_v s))) = rows s"
proof -
  have "email_taken s e"
    using assms by (simp add: email_taken_def)
  then show ?thesis
    by (simp add: User_create_def attr_text_def Let_def)
qed

lemma newUser_rows:
  assumes "destructure body = Some (name_v, email_v, phone_v)"
  shows "rows (after (newUser L now db_ok body s)) =
     (if \<not> truthy name_v \<or> \<not> truthy email_v \<or> \<not> truthy phone_v then rows s
      else rows (fst (snd (User_create L now db_ok name_v email_v phone_v s))))"
  using assms by (simp add: newUser_def split: prod.splits sum.splits)

lemma newUser_strings:
  assumes "prop_of body ''name'' = JStr n" and "prop_of body ''email'' = JStr e"
    and "prop_of body ''phone'' = JStr p" and "n \<noteq> []" and "e \<noteq> []" and "p \<noteq> []"
  shows "newUser L now db_ok body s =
     (case User_create L now db_ok (JStr n) (JStr e) (JStr p) s of
        (Inr newUser_v, s', evs) \<Rightarrow> \<lparr>sent = user_created newUser_v, after = s', trace = evs\<rparr>
      | (Inl err, s', evs) \<Rightarrow> \<lparr>sent = newUser_catch err, after = s', trace = evs\<rparr>)"
  using assms destructure_of_field[OF assms(1)] by (simp add: newUser_def)

lemma order_createdAt_DESC_mset: "mset (order_createdAt_DESC rs) = mset rs"
  by (simp add: order_createdAt_DESC_def)

lemma order_createdAt_DESC_sorted:
  "sorted_wrt (\<lambda>a b. createdAt b \<le> createdAt a) (order_createdAt_DESC rs)"
proof -
  have "sorted (map (\<lambda>r. - createdAt r) (order_createdAt_DESC rs))"
    by (simp add: order_createdAt_DESC_def)
  then show ?thesis by (simp add: sorted_map)
qed

lemma select_all_attributes:
  "select_attributes allUsers_attributes r =
     JObj [(''id'', JNum (of_int (id' r))), (''name'', JStr (name r)), (''email'', JStr (email r)),
           (''phone'', JStr (phone r)), (''createdAt'', JDate (createdAt r)),
           (''updatedAt'', JDate (updatedAt r))]"
  by (simp add: select_attributes_def allUsers_attributes_def toJSON_def)

lemma allUsers_ok:
  "allUsers True s =
     \<lparr>sent = \<lparr>status = 200,
               json = JObj [(''message'', JStr ''Usuarios obtenidos exitosamente''),
                            (''count'', JNum (of_nat (length (rows s)))),
                            (''users'', JArr (map (select_attributes allUsers_attributes)
                                               (order_createdAt_DESC (rows s))))]\<rparr>,
       after = s, trace = [FindAllCalled, SelectSent]\<rparr>"
  by (simp add: allUsers_def User_findAll_def order_createdAt_DESC_def)

text \<open>When the query fails the handler answers 500 and lists nothing.\<close>

lemma allUsers_failed:
  "allUsers False s =
     \<lparr>sent = \<lparr>status = 500,
               json = JObj [(''error'',
                             JStr ''Error interno del servidor al obtener los usuarios'')]\<rparr>,
       after = s, trace = [FindAllCalled, SelectSent]\<rparr>"
  by (simp add: allUsers_def User_findAll_def)

lemma users_of_allUsers:
  "users_of (json (sent (allUsers db_ok s))) =
     (if db_ok then map (select_attributes allUsers_attributes) (order_createdAt_DESC (rows s))
      else [])"
  by (simp add: allUsers_def User_findAll_def users_of_def)


text \<open>When the database does not execute the INSERT, the handler answers 500.\<close>

lemma newUser_database_error:
  assumes "prop_of body ''name'' = JStr n" and "prop_of body ''email'' = JStr e"
    and "prop_of body ''phone'' = JStr p" and "n \<noteq> []" and "e \<noteq> []" and "p \<noteq> []"
    and "validate_User L n e p = []"
  shows "status (sent (newUser L now False body s)) = 500 \<and>
         after (newUser L now False body s) = s"
  using assms(7)
  by (simp add: newUser_strings[OF assms(1-6)] User_create_strings newUser_catch_def)

text \<open>The library functions of the concrete runs.\<close>

lemma sample_lib_validators:
  "isEmail sample_lib t = (CHR ''@'' \<in> set t)"
  "notEmpty sample_lib t = (trim t \<noteq> [])"
  by (simp_all add: sample_lib_def)

lemma sample_lib_JSON_parse:
  "JSON_parse sample_lib t =
     (if t = ''{}'' then Some (JObj []) else if t = ''null'' then Some JNull else None)"
  by (simp add: sample_lib_def)

lemma sample_lib_express_parsers:
  "express_parsers sample_lib ctype raw body =
     (if ctype = ''application/json'' \<and> toString_utf8 raw \<noteq> [] \<and> trim (toString_utf8 raw) = []
      then Inl sample_parse_error else Inr body)"
  by (simp add: sample_lib_def)

lemma user_body_fields:
  "prop_of (user_body n e p) ''name'' = JStr n"
  "prop_of (user_body n e p) ''email'' = JStr e"
  "prop_of (user_body n e p) ''phone'' = JStr p"
  by (simp_all add: user_body_def)

lemma trim_blank_text: "trim blank_text = []"
  by (simp add: trim_def blank_text_def js_space_def)

section \<open>The create handler\<close>




text \<open>
  Claim C2, as amended. For every create request whose email is a string already in the
  table, no row is created: the rows of the table are as before, so no second row with
  that email exists. The response has status 409 when the request's name, email and
  phone are non-empty strings that pass the declared validators and the database
  executes the INSERT.
\<close>

theorem newUser_duplicate_email:
  assumes "prop_of body ''email'' = JStr e" and "e \<in> set (map email (rows s))"
  shows "rows (after (newUser L now db_ok body s)) = rows s \<and>
         (prop_of body ''name'' = JStr n \<and> prop_of body ''phone'' = JStr p \<and>
          n \<noteq> [] \<and> e \<noteq> [] \<and> p \<noteq> [] \<and>
          notEmpty L n \<and> notEmpty L e \<and> notEmpty L p \<and> isEmail L e \<longrightarrow>
          status (sent (newUser L now True body s)) = 409)"
proof
  have "destructure body =
      Some (prop_of body ''name'', prop_of body ''email'', prop_of body ''phone'')"
    using assms(1) by (rule destructure_of_field)
  then show "rows (after (newUser L now db_ok body s)) = rows s"
    using assms by (simp add: newUser_rows User_create_duplicate_rows)
next
  show "prop_of body ''name'' = JStr n \<and> prop_of body ''phone'' = JStr p \<and>
          n \<noteq> [] \<and> e \<noteq> [] \<and> p \<noteq> [] \<and>
          notEmpty L n \<and> notEmpty L e \<and> notEmpty L p \<and> isEmail L e \<longrightarrow>
          status (sent (newUser L now True body s)) = 409"
  proof
    assume h: "prop_of body ''name'' = JStr n \<and> prop_of body ''phone'' = JStr p \<and>
          n \<noteq> [] \<and> e \<noteq> [] \<and> p \<noteq> [] \<and>
          notEmpty L n \<and> notEmpty L e \<and> notEmpty L p \<and> isEmail L e"
    then have v: "validate_User L n e p = []" by (simp add: validate_User_passes)
    have taken: "email_taken s e"
      using assms(2) by (simp add: email_taken_def)
    from h assms(1) have "newUser L now True body s =
       (case User_create L now True (JStr n) (JStr e) (JStr p) s of
          (Inr newUser_v, s', evs) \<Rightarrow> \<lparr>sent = user_created newUser_v, after = s', trace = evs\<rparr>
        | (Inl err, s', evs) \<Rightarrow> \<lparr>sent = newUser_catch err, after = s', trace = evs\<rparr>)"
      by (simp add: newUser_strings)
    then show "status (sent (newUser L now True body s)) = 409"
      using v taken by (simp add: User_create_strings newUser_catch_def)
  qed
qed

theorem newUser_duplicate_email_witness:
  "''ana@x.com'' \<in> set (map email (rows ana_store)) \<and>
   rows (after (newUser sample_lib 2000 True (user_body ''Eva'' ''ana@x.com'' ''456'')
                 ana_store)) = [ana_row] \<and>
   status (sent (newUser sample_lib 2000 True (user_body ''Eva'' ''ana@x.com'' ''456'')
                  ana_store)) = 409"
proof -
  have 1: "prop_of (user_body ''Eva'' ''ana@x.com'' ''456'') ''email'' = JStr ''ana@x.com''"
    by (simp add: user_body_fields)
  have 2: "''ana@x.com'' \<in> set (map email (rows ana_store))"
    by (simp add: ana_store_def ana_row_def)
  have 3: "notEmpty sample_lib ''Eva''" "notEmpty sample_lib ''ana@x.com''"
    "notEmpty sample_lib ''456''" "isEmail sample_lib ''ana@x.com''"
    by (simp_all add: sample_lib_validators trim_def js_space_def)
  have 4: "rows ana_store = [ana_row]"
    by (simp add: ana_store_def)
  from newUser_duplicate_email [OF 1 2, of sample_lib 2000 True "''Eva''" "''456''"] 2 3 4
  show ?thesis
    by (simp add: user_body_fields)
qed

text \<open>
  The claim as stated fails when the second request lacks a name: the email is the
  stored one, and the handler answers 400 before the store is asked.
\<close>

theorem newUser_duplicate_email_counterexample:
  "''ana@x.com'' \<in> set (map email (rows ana_store)) \<and>
   status (sent (newUser sample_lib 2000 True (user_body [] ''ana@x.com'' ''456'')
                  ana_store)) = 400"
  by (simp add: newUser_def destructure_def user_body_def ana_store_def ana_row_def
      fields_required_def)

text \<open>
  Claim C3. For every candidate object with \<^verbatim>\<open>name\<close>, \<^verbatim>\<open>email\<close> and
  \<^verbatim>\<open>phone\<close> present as non-empty strings whose email does not pass \<open>isEmail\<close>,
  validation fails before anything is written: the response has status 400 and carries,
  as \<^verbatim>\<open>details\<close>, the messages of the violated validators, among them the one
  that names \<^verbatim>\<open>isEmail\<close> and the field \<^verbatim>\<open>email\<close>; the store is as before and no
  INSERT was sent.
\<close>

theorem newUser_invalid_email:
  assumes "prop_of body ''name'' = JStr n" and "prop_of body ''email'' = JStr e"
    and "prop_of body ''phone'' = JStr p" and "n \<noteq> []" and "e \<noteq> []" and "p \<noteq> []"
    and "\<not> isEmail L e"
  shows "sent (newUser L now db_ok body s) =
           \<lparr>status = 400,
            json = JObj [(''error'', JStr (''Datos de entrada inv'' @ [a_acute] @ ''lidos'')),
                         (''details'', JArr (map JStr (validate_User L n e p)))]\<rparr> \<and>
         ''Validation isEmail on email failed'' \<in> set (validate_User L n e p) \<and>
         after (newUser L now db_ok body s) = s \<and>
         trace (newUser L now db_ok body s) = [CreateCalled]"
proof -
  have v: "''Validation isEmail on email failed'' \<in> set (validate_User L n e p)"
    using assms(7) by (simp add: validate_User_def validator_message_def)
  then have ne: "validate_User L n e p \<noteq> []" by auto
  show ?thesis
    using v ne
    by (simp add: newUser_strings[OF assms(1-6)] User_create_strings newUser_catch_def)
qed

theorem newUser_invalid_email_witness:
  "\<not> isEmail sample_lib ''ana.x.com'' \<and>
   sent (newUser sample_lib 1000 True (user_body ''Ana'' ''ana.x.com'' ''123'') empty_store) =
     \<lparr>status = 400,
      json = JObj [(''error'', JStr (''Datos de entrada inv'' @ [a_acute] @ ''lidos'')),
                   (''details'', JArr [JStr ''Validation isEmail on email failed''])]\<rparr> \<and>
   after (newUser sample_lib 1000 True (user_body ''Ana'' ''ana.x.com'' ''123'') empty_store) =
     empty_store \<and>
   trace (newUser sample_lib 1000 True (user_body ''Ana'' ''ana.x.com'' ''123'') empty_store) =
     [CreateCalled]"
  using newUser_invalid_email [of "user_body ''Ana'' ''ana.x.com'' ''123''" "''Ana''"
      "''ana.x.com''" "''123''" sample_lib 1000 True empty_store]
  by (simp add: user_body_def sample_lib_def trim_def js_space_def validate_User_def
      validator_message_def)




text \<open>
  Claim C9. For every create request rejected by the handler's missing-field check, the
  response has status 400 and its body holds, under the key \<^verbatim>\<open>received\<close>, an object
  with the values of \<^verbatim>\<open>name\<close>, \<^verbatim>\<open>email\<close> and \<^verbatim>\<open>phone\<close> as they were read
  from the request body.
\<close>

theorem newUser_received:
  assumes "body \<noteq> JUndefined" and "body \<noteq> JNull"
    and "\<not> truthy (prop_of body ''name'') \<or> \<not> truthy (prop_of body ''email'') \<or>
         \<not> truthy (prop_of body ''phone'')"
  shows "status (sent (newUser L now db_ok body s)) = 400 \<and>
         prop_of (json (sent (newUser L now db_ok body s))) ''received'' =
           JObj [(''name'', prop_of body ''name''), (''email'', prop_of body ''email''),
                 (''phone'', prop_of body ''phone'')]"
  using assms by (auto simp add: newUser_def destructure_def fields_required_def)

theorem newUser_received_witness:
  "\<not> truthy (prop_of (user_body ''Ana'' [] ''123'') ''email'') \<and>
   status (sent (newUser sample_lib 1000 True (user_body ''Ana'' [] ''123'') empty_store)) = 400 \<and>
   prop_of (json (sent (newUser sample_lib 1000 True (user_body ''Ana'' [] ''123'') empty_store)))
       ''received'' =
     JObj [(''name'', JStr ''Ana''), (''email'', JStr []), (''phone'', JStr ''123'')]"
  using newUser_received [of "user_body ''Ana'' [] ''123''" sample_lib 1000 True empty_store]
  by (simp add: user_body_def)

section \<open>The list handler\<close>

text \<open>
  Claim C5, as amended. For every state of the store, when the database executes the
  query, the list operation returns every stored row, ordered by \<^verbatim>\<open>createdAt\<close>
  descending (the most recently created first): the users of the response are the six
  attributes of the rows of a rearrangement of the table in which no row is created
  later than one before it, as many users as the table has rows; and the \<^verbatim>\<open>count\<close>
  of the body is the number of users in it.
\<close>

theorem allUsers_lists_every_row:
  assumes "db_ok"
  shows "\<exists>us. mset us = mset (rows s) \<and>
        sorted_wrt (\<lambda>a b. createdAt b \<le> createdAt a) us \<and>
        status (sent (allUsers db_ok s)) = 200 \<and>
        users_of (json (sent (allUsers db_ok s))) =
          map (\<lambda>r. JObj [(''id'', JNum (of_int (id' r))), (''name'', JStr (name r)),
                          (''email'', JStr (email r)), (''phone'', JStr (phone r)),
                          (''createdAt'', JDate (createdAt r)),
                          (''updatedAt'', JDate (updatedAt r))]) us \<and>
        length (users_of (json (sent (allUsers db_ok s)))) = length (rows s) \<and>
        prop_of (json (sent (allUsers db_ok s))) ''count'' =
          JNum (of_nat (length (users_of (json (sent (allUsers db_ok s))))))"
proof -
  let ?us = "order_createdAt_DESC (rows s)"
  have ok: "allUsers db_ok s = allUsers True s"
    using assms by simp
  have "mset ?us = mset (rows s)"
    by (rule order_createdAt_DESC_mset)
  moreover have "sorted_wrt (\<lambda>a b. createdAt b \<le> createdAt a) ?us"
    by (rule order_createdAt_DESC_sorted)
  moreover have "status (sent (allUsers db_ok s)) = 200"
    by (simp add: ok allUsers_ok)
  moreover have "users_of (json (sent (allUsers db_ok s))) =
      map (\<lambda>r. JObj [(''id'', JNum (of_int (id' r))), (''name'', JStr (name r)),
                      (''email'', JStr (email r)), (''phone'', JStr (phone r)),
                      (''createdAt'', JDate (createdAt r)),
                      (''updatedAt'', JDate (updatedAt r))]) ?us"
    using assms by (simp add: users_of_allUsers select_all_attributes)
  moreover have "length (users_of (json (sent (allUsers db_ok s)))) = length (rows s)"
    using assms by (simp add: users_of_allUsers order_createdAt_DESC_def)
  moreover have "prop_of (json (sent (allUsers db_ok s))) ''count'' =
      JNum (of_nat (length (users_of (json (sent (allUsers db_ok s))))))"
    using assms
    by (simp add: users_of_allUsers) (simp add: allUsers_ok order_createdAt_DESC_def)
  ultimately show ?thesis by blast
qed

text \<open>A run: the row of Eva, created after that of Ana, is listed first.\<close>

theorem allUsers_lists_every_row_witness:
  "(\<exists>us. mset us = mset (rows two_store) \<and>
         users_of (json (sent (allUsers True two_store))) =
           map (\<lambda>r. JObj [(''id'', JNum (of_int (id' r))), (''name'', JStr (name r)),
                           (''email'', JStr (email r)), (''phone'', JStr (phone r)),
                           (''createdAt'', JDate (createdAt r)),
                           (''updatedAt'', JDate (updatedAt r))]) us) \<and>
   users_of (json (sent (allUsers True two_store))) =
     [JObj [(''id'', JNum 2), (''name'', JStr ''Eva''), (''email'', JStr ''eva@x.com''),
            (''phone'', JStr ''456''), (''createdAt'', JDate 2000),
            (''updatedAt'', JDate 2000)],
      JObj [(''id'', JNum 1), (''name'', JStr ''Ana''), (''email'', JStr ''ana@x.com''),
            (''phone'', JStr ''123''), (''createdAt'', JDate 1000),
            (''updatedAt'', JDate 1000)]] \<and>
   prop_of (json (sent (allUsers True two_store))) ''count'' = JNum 2"
proof -
  have us: "users_of (json (sent (allUsers True two_store))) =
     [JObj [(''id'', JNum 2), (''name'', JStr ''Eva''), (''email'', JStr ''eva@x.com''),
            (''phone'', JStr ''456''), (''createdAt'', JDate 2000),
            (''updatedAt'', JDate 2000)],
      JObj [(''id'', JNum 1), (''name'', JStr ''Ana''), (''email'', JStr ''ana@x.com''),
            (''phone'', JStr ''123''), (''createdAt'', JDate 1000),
            (''updatedAt'', JDate 1000)]]"
    by (simp add: users_of_allUsers select_all_attributes order_createdAt_DESC_def
        two_store_def ana_row_def eva_row_def)
  from allUsers_lists_every_row [of True two_store]
  obtain us where 1: "mset us = mset (rows two_store)"
    and 2: "users_of (json (sent (allUsers True two_store))) =
           map (\<lambda>r. JObj [(''id'', JNum (of_int (id' r))), (''name'', JStr (name r)),
                           (''email'', JStr (email r)), (''phone'', JStr (phone r)),
                           (''createdAt'', JDate (createdAt r)),
                           (''updatedAt'', JDate (updatedAt r))]) us"
    and 3: "prop_of (json (sent (allUsers True two_store))) ''count'' =
          JNum (of_nat (length (users_of (json (sent (allUsers True two_store))))))"
    by auto
  from 3 have "prop_of (json (sent (allUsers True two_store))) ''count'' = JNum 2"
    unfolding us by simp
  with 1 2 us show ?thesis by blast
qed

text \<open>
  The claim as stated fails when the query fails: the table has the row of Ana, and the
  handler's \<^verbatim>\<open>catch\<close> block answers 500 with no user.
\<close>

theorem allUsers_lists_every_row_counterexample:
  "rows ana_store = [ana_row] \<and>
   status (sent (allUsers False ana_store)) = 500 \<and>
   users_of (json (sent (allUsers False ana_store))) = []"
  by (simp add: allUsers_failed users_of_def ana_store_def)

text \<open>
  Claim C10. Every user object returned by the list operation has exactly the six
  attributes \<^verbatim>\<open>id\<close>, \<^verbatim>\<open>name\<close>, \<^verbatim>\<open>email\<close>, \<^verbatim>\<open>phone\<close>, \<^verbatim>\<open>createdAt\<close> and
  \<^verbatim>\<open>updatedAt\<close>, with the values of a stored row, and nothing else.
\<close>

theorem allUsers_six_attributes:
  "\<forall>u \<in> set (users_of (json (sent (allUsers db_ok s)))).
     \<exists>r \<in> set (rows s).
       u = JObj [(''id'', JNum (of_int (id' r))), (''name'', JStr (name r)),
                 (''email'', JStr (email r)), (''phone'', JStr (phone r)),
                 (''createdAt'', JDate (createdAt r)), (''updatedAt'', JDate (updatedAt r))]"
proof
  fix u
  assume "u \<in> set (users_of (json (sent (allUsers db_ok s))))"
  then obtain r where r: "r \<in> set (order_createdAt_DESC (rows s))"
    and u: "u = select_attributes allUsers_attributes r"
    by (auto simp add: users_of_allUsers split: if_splits)
  from r have "r \<in># mset (order_createdAt_DESC (rows s))"
    by simp
  then have "r \<in> set (rows s)"
    by (simp add: order_createdAt_DESC_mset)
  with u show "\<exists>r \<in> set (rows s).
       u = JObj [(''id'', JNum (of_int (id' r))), (''name'', JStr (name r)),
                 (''email'', JStr (email r)), (''phone'', JStr (phone r)),
                 (''createdAt'', JDate (createdAt r)), (''updatedAt'', JDate (updatedAt r))]"
    by (auto simp add: select_all_attributes)
qed

theorem allUsers_six_attributes_witness:
  "users_of (json (sent (allUsers True ana_store))) =
     [JObj [(''id'', JNum 1), (''name'', JStr ''Ana''), (''email'', JStr ''ana@x.com''),
            (''phone'', JStr ''123''), (''createdAt'', JDate 1000),
            (''updatedAt'', JDate 1000)]] \<and>
   (\<exists>r \<in> set (rows ana_store).
      JObj [(''id'', JNum 1), (''name'', JStr ''Ana''), (''email'', JStr ''ana@x.com''),
            (''phone'', JStr ''123''), (''createdAt'', JDate 1000),
            (''updatedAt'', JDate 1000)] =
      JObj [(''id'', JNum (of_int (id' r))), (''name'', JStr (name r)),
            (''email'', JStr (email r)), (''phone'', JStr (phone r)),
            (''createdAt'', JDate (createdAt r)), (''updatedAt'', JDate (updatedAt r))])"
proof -
  have us: "users_of (json (sent (allUsers True ana_store))) =
     [JObj [(''id'', JNum 1), (''name'', JStr ''Ana''), (''email'', JStr ''ana@x.com''),
            (''phone'', JStr ''123''), (''createdAt'', JDate 1000),
            (''updatedAt'', JDate 1000)]]"
    by (simp add: users_of_allUsers select_all_attributes order_createdAt_DESC_def
        ana_store_def ana_row_def)
  from allUsers_six_attributes [of True ana_store] show ?thesis
    unfolding us by simp
qed

section \<open>The body middleware and the requests through it\<close>

text \<open>
  Claim C6, as amended. For a POST request whose raw body is the empty byte sequence, or
  decodes to text of white space only, the body middleware yields the empty object and
  not a parse error. When the parsers of Express mounted behind it hand that object on,
  the request is then rejected by the handler's field check with status 400, the store
  untouched; when they throw, the response is their error as the error middleware
  renders it, and the handler does not run.
\<close>

theorem blank_buffer_is_empty_object:
  assumes "trim t = []"
  shows "body_middleware L ''POST'' (JBuffer t) = Next (JObj []) \<and>
         (express_parsers L ctype (JBuffer t) (JObj []) = Inr (JObj []) \<longrightarrow>
            POST_newUser L ctype now db_ok (JBuffer t) s =
              \<lparr>sent = \<lparr>status = 400,
                        json = JObj [(''error'',
                                      JStr ''Todos los campos son requeridos: name, email, phone''),
                                     (''received'', JObj [(''name'', JUndefined),
                                                          (''email'', JUndefined),
                                                          (''phone'', JUndefined)]),
                                     (''bodyType'', JStr ''object'')]\<rparr>,
               after = s, trace = []\<rparr> \<and>
            sent (POST_newUser L ctype now db_ok (JBuffer t) s) \<noteq> malformed_body) \<and>
         (express_parsers L ctype (JBuffer t) (JObj []) = Inl (Thrown (Some st) (Some m) self) \<and>
          st \<noteq> 0 \<and> m \<noteq> [] \<longrightarrow>
            POST_newUser L ctype now db_ok (JBuffer t) s =
              \<lparr>sent = \<lparr>status = st, json = JObj [(''error'', JStr m)]\<rparr>,
               after = s, trace = []\<rparr>)"
proof -
  have mw: "body_middleware L ''POST'' (JBuffer t) = Next (JObj [])"
    using assms by (simp add: body_middleware_def methodsWithBody_def)
  have h: "newUser L now db_ok (JObj []) s =
      \<lparr>sent = \<lparr>status = 400,
                json = JObj [(''error'',
                              JStr ''Todos los campos son requeridos: name, email, phone''),
                             (''received'', JObj [(''name'', JUndefined),
                                                  (''email'', JUndefined),
                                                  (''phone'', JUndefined)]),
                             (''bodyType'', JStr ''object'')]\<rparr>,
       after = s, trace = []\<rparr>"
    by (simp add: newUser_def destructure_def fields_required_def)
  have e: "error_middleware (Thrown (Some st) (Some m) self) =
      \<lparr>status = (if st \<noteq> 0 then st else 500),
       json = JObj [(''error'', if m \<noteq> [] then JStr m else self)]\<rparr>"
    by (simp add: error_middleware_def)
  show ?thesis
    using mw h e by (simp add: POST_newUser_def malformed_body_def)
qed

theorem blank_buffer_is_empty_object_witness:
  "trim blank_text = [] \<and>
   body_middleware sample_lib ''POST'' (JBuffer blank_text) = Next (JObj []) \<and>
   status (sent (POST_newUser sample_lib ''application/octet-stream'' 1000 True
                  (JBuffer blank_text) ana_store)) = 400 \<and>
   prop_of (json (sent (POST_newUser sample_lib ''application/octet-stream'' 1000 True
                         (JBuffer blank_text) ana_store))) ''bodyType'' = JStr ''object'' \<and>
   after (POST_newUser sample_lib ''application/octet-stream'' 1000 True
           (JBuffer blank_text) ana_store) = ana_store \<and>
   status (sent (POST_newUser sample_lib ''application/json'' 1000 True
                  (JBuffer []) ana_store)) = 400 \<and>
   POST_newUser sample_lib ''application/json'' 1000 True (JBuffer blank_text) ana_store =
     \<lparr>sent = \<lparr>status = 400, json = JObj [(''error'', JStr ''Unexpected end of JSON input'')]\<rparr>,
      after = ana_store, trace = []\<rparr>"
proof -
  have 1: "trim blank_text = []"
    by (rule trim_blank_text)
  have 2: "trim [] = []"
    by (simp add: trim_def)
  have p1: "express_parsers sample_lib ''application/octet-stream'' (JBuffer blank_text)
      (JObj []) = Inr (JObj [])"
    by (simp add: sample_lib_express_parsers)
  have p2: "express_parsers sample_lib ''application/json'' (JBuffer []) (JObj []) =
      Inr (JObj [])"
    by (simp add: sample_lib_express_parsers)
  have p3: "express_parsers sample_lib ''application/json'' (JBuffer blank_text) (JObj []) =
      Inl (Thrown (Some 400) (Some ''Unexpected end of JSON input'') (JObj [])) \<and>
      (400::nat) \<noteq> 0 \<and> ''Unexpected end of JSON input'' \<noteq> []"
    by (simp add: sample_lib_express_parsers trim_blank_text sample_parse_error_def)
      (simp add: blank_text_def)
  note a = blank_buffer_is_empty_object [OF 1, of sample_lib "''application/octet-stream''"
      1000 True ana_store 400 "''Unexpected end of JSON input''" "JObj []"]
  note b = blank_buffer_is_empty_object [OF 2, of sample_lib "''application/json''"
      1000 True ana_store 400 "''Unexpected end of JSON input''" "JObj []"]
  note c = blank_buffer_is_empty_object [OF 1, of sample_lib "''application/json''"
      1000 True ana_store 400 "''Unexpected end of JSON input''" "JObj []"]
  from a have a0: "body_middleware sample_lib ''POST'' (JBuffer blank_text) = Next (JObj [])"
    by blast
  from a p1 have a1: "POST_newUser sample_lib ''application/octet-stream'' 1000 True
      (JBuffer blank_text) ana_store =
      \<lparr>sent = \<lparr>status = 400,
                json = JObj [(''error'',
                              JStr ''Todos los campos son requeridos: name, email, phone''),
                             (''received'', JObj [(''name'', JUndefined),
                                                  (''email'', JUndefined),
                                                  (''phone'', JUndefined)]),
                             (''bodyType'', JStr ''object'')]\<rparr>,
       after = ana_store, trace = []\<rparr>"
    by blast
  from b p2 have b1: "POST_newUser sample_lib ''application/json'' 1000 True
      (JBuffer []) ana_store =
      \<lparr>sent = \<lparr>status = 400,
                json = JObj [(''error'',
                              JStr ''Todos los campos son requeridos: name, email, phone''),
                             (''received'', JObj [(''name'', JUndefined),
                                                  (''email'', JUndefined),
                                                  (''phone'', JUndefined)]),
                             (''bodyType'', JStr ''object'')]\<rparr>,
       after = ana_store, trace = []\<rparr>"
    by blast
  from c p3 have c1: "POST_newUser sample_lib ''application/json'' 1000 True
      (JBuffer blank_text) ana_store =
      \<lparr>sent = \<lparr>status = 400, json = JObj [(''error'', JStr ''Unexpected end of JSON input'')]\<rparr>,
       after = ana_store, trace = []\<rparr>"
    by blast
  show ?thesis
    using 1 a0 c1 by (simp add: a1 b1)
qed

text \<open>
  The claim as stated fails for a body of two spaces sent as \<^verbatim>\<open>application/json\<close>:
  the body middleware yields the empty object, but \<^verbatim>\<open>express.json\<close> behind it
  reads the raw body again and throws a parse error; the error middleware answers, and
  the field check of the handler is never reached.
\<close>

theorem blank_buffer_is_empty_object_counterexample:
  "body_middleware sample_lib ''POST'' (JBuffer ''  '') = Next (JObj []) \<and>
   sent (POST_newUser sample_lib ''application/json'' 1000 True (JBuffer ''  '') ana_store) =
     \<lparr>status = 400, json = JObj [(''error'', JStr ''Unexpected end of JSON input'')]\<rparr> \<and>
   trace (POST_newUser sample_lib ''application/json'' 1000 True (JBuffer ''  '') ana_store) =
     []"
  by (simp add: POST_newUser_def body_middleware_def methodsWithBody_def
      sample_lib_express_parsers trim_def js_space_def error_middleware_def
      sample_parse_error_def)

text \<open>
  Claim C7, as amended. For a POST request whose raw byte body decodes to text that is
  not blank and that \<^verbatim>\<open>JSON.parse\<close> rejects, the middleware responds with status 400
  and the malformed-body message, with no side effects: neither the parsers behind it
  nor the handler run, the store is not accessed and is as before.
\<close>

theorem malformed_buffer_rejected:
  assumes "trim t \<noteq> []" and "JSON_parse L t = None"
  shows "body_middleware L ''POST'' (JBuffer t) = Responded malformed_body \<and>
         status malformed_body = 400 \<and>
         json malformed_body =
           JObj [(''error'', JStr (''Formato de datos inv'' @ [CHR 0xE1] @ ''lido'')),
                 (''details'', JStr ''No se pudo parsear el JSON'')] \<and>
         POST_newUser L ctype now db_ok (JBuffer t) s =
           \<lparr>sent = malformed_body, after = s, trace = []\<rparr>"
  using assms
  by (simp add: POST_newUser_def body_middleware_def methodsWithBody_def malformed_body_def
      a_acute_def)

theorem malformed_buffer_rejected_witness:
  "trim ''{bad'' \<noteq> [] \<and> JSON_parse sample_lib ''{bad'' = None \<and>
   body_middleware sample_lib ''POST'' (JBuffer ''{bad'') = Responded malformed_body \<and>
   status malformed_body = 400 \<and>
   POST_newUser sample_lib ''application/json'' 1000 True (JBuffer ''{bad'') ana_store =
     \<lparr>sent = malformed_body, after = ana_store, trace = []\<rparr>"
proof -
  have 1: "trim ''{bad'' \<noteq> []"
    by (simp add: trim_def js_space_def)
  have 2: "JSON_parse sample_lib ''{bad'' = None"
    by (simp add: sample_lib_JSON_parse)
  from malformed_buffer_rejected [OF 1 2, of "''application/json''" 1000 True ana_store] 1 2
  show ?thesis by simp
qed

text \<open>
  The claim as stated fails on blank text: two spaces are not valid JSON
  (\<^verbatim>\<open>JSON.parse\<close> throws on them), and the middleware does not respond but passes the
  empty object on. So it does for a body that is one no-break space.
\<close>

theorem malformed_buffer_rejected_counterexample:
  "JSON_parse sample_lib ''  '' = None \<and>
   body_middleware sample_lib ''POST'' (JBuffer ''  '') = Next (JObj []) \<and>
   JSON_parse sample_lib [CHR 0xA0] = None \<and>
   body_middleware sample_lib ''POST'' (JBuffer [CHR 0xA0]) = Next (JObj [])"
  by (simp add: body_middleware_def methodsWithBody_def sample_lib_JSON_parse trim_def
      js_space_def)

text \<open>
  Claim C8, as amended. The middleware answers a request itself, with the malformed-body
  400, only when the method is POST, PUT or PATCH and the body is a Buffer, the one case
  in which it decodes and parses. For every other request the body is passed through
  unchanged, whatever \<^verbatim>\<open>JSON.parse\<close> would make of it, except that a falsy body (none,
  \<^verbatim>\<open>null\<close>, the empty string, \<open>0\<close>, \<^verbatim>\<open>false\<close>) of a POST, PUT or PATCH is
  replaced by the empty object. A body of a GET is never rejected.
\<close>

theorem body_middleware_frame:
  "(body_middleware L meth body = Responded r \<longrightarrow>
      meth \<in> set methodsWithBody \<and> isBuffer body \<and> r = malformed_body) \<and>
   (\<not> (meth \<in> set methodsWithBody \<and> isBuffer body) \<longrightarrow>
      body_middleware L meth body =
        Next (if meth \<in> set methodsWithBody \<and> \<not> truthy body then JObj [] else body)) \<and>
   body_middleware L ''GET'' body = Next body"
  by (auto simp add: body_middleware_def methodsWithBody_def Let_def
      split: option.splits if_splits)

theorem body_middleware_frame_witness:
  "body_middleware sample_lib ''POST'' (JBuffer ''{bad'') = Responded malformed_body \<and>
   ''POST'' \<in> set methodsWithBody \<and> isBuffer (JBuffer ''{bad'') \<and>
   body_middleware sample_lib ''PUT'' (JStr ''{bad'') = Next (JStr ''{bad'') \<and>
   body_middleware sample_lib ''GET'' (JBuffer ''{bad'') = Next (JBuffer ''{bad'')"
proof -
  have 1: "body_middleware sample_lib ''POST'' (JBuffer ''{bad'') = Responded malformed_body"
    by (simp add: body_middleware_def methodsWithBody_def sample_lib_def trim_def js_space_def)
  have 2: "\<not> (''PUT'' \<in> set methodsWithBody \<and> isBuffer (JStr ''{bad''))"
    by simp
  from body_middleware_frame [of sample_lib "''POST''" "JBuffer ''{bad''" malformed_body]
    body_middleware_frame [of sample_lib "''PUT''" "JStr ''{bad''" malformed_body]
    body_middleware_frame [of sample_lib "''GET''" "JBuffer ''{bad''" malformed_body]
    1 2
  show ?thesis by simp
qed

text \<open>
  The claim as stated fails for a POST whose body is the empty string, or that has no
  body: neither is a Buffer, and the body handed on is the empty object.
\<close>

theorem body_middleware_frame_counterexample:
  "isBuffer (JStr []) = False \<and>
   body_middleware sample_lib ''POST'' (JStr []) = Next (JObj []) \<and>
   isBuffer JUndefined = False \<and>
   body_middleware sample_lib ''POST'' JUndefined = Next (JObj [])"
  by (simp add: body_middleware_def methodsWithBody_def)

end
